theory Spec2Isabelle
  imports Main "HOL-Library.Word"
begin

section \<open>JavaScript values used by the session code\<close>

text \<open>
  Strings are lists of characters; a \<^typ>\<open>char\<close> stands for the code point of the same
  number (U+0000 to U+00FF). Bytes on the data channel are 8-bit words.
\<close>

type_synonym byte = "8 word"

text \<open>\<^verbatim>\<open>s.replace(a, b)\<close> with a one-character string pattern: only the first occurrence.\<close>

fun replace_first :: "char \<Rightarrow> char \<Rightarrow> string \<Rightarrow> string" where
  "replace_first a b [] = []"
| "replace_first a b (c # cs) = (if c = a then b # cs else c # replace_first a b cs)"

definition lower_char :: "char \<Rightarrow> char" where
  "lower_char c =
     (let n = (of_char c :: nat) in
      if (65 \<le> n \<and> n \<le> 90) \<or> (192 \<le> n \<and> n \<le> 222 \<and> n \<noteq> 215)
      then char_of (n + 32) else c)"

definition toLowerCase :: "string \<Rightarrow> string" where
  "toLowerCase s = map lower_char s"

text \<open>Decimal rendering of a number inside a template literal, as for \<^verbatim>\<open>Date.now()\<close>.\<close>

fun digits :: "nat \<Rightarrow> string" where
  "digits n =
     (if n < 10 then [char_of (48 + n)]
      else digits (n div 10) @ [char_of (48 + n mod 10)])"

declare digits.simps [simp del]

text \<open>A thrown value: an \<^verbatim>\<open>Error\<close> instance with its message, or anything else.\<close>

datatype thrown = ErrorObject string | OtherValue

text \<open>\<^verbatim>\<open>err instanceof Error ? err.message : 'Unknown error'\<close>\<close>

fun message_of :: "thrown \<Rightarrow> string" where
  "message_of (ErrorObject m) = m"
| "message_of OtherValue = ''Unknown error''"

text \<open>How a call ends: it returns (a promise resolves) or it throws (a promise rejects).\<close>

datatype completion = Returned | Threw thrown

text \<open>JavaScript truthiness of an optional string and of an optional boolean.\<close>

fun truthy :: "string option \<Rightarrow> bool" where
  "truthy None = False"
| "truthy (Some s) = (s \<noteq> [])"

fun flag :: "bool option \<Rightarrow> bool" where
  "flag None = False"
| "flag (Some b) = b"

subsection \<open>Serialising an outbound command\<close>

text \<open>
  A command is an object literal whose values are strings; the pairs are kept in the
  order the literal writes them, which is the order \<^verbatim>\<open>JSON.stringify\<close> prints.
\<close>

type_synonym json_object = "(string \<times> string) list"

definition hex_digit :: "nat \<Rightarrow> char" where
  "hex_digit n = (if n < 10 then char_of (48 + n) else char_of (87 + n))"

definition json_escape_char :: "char \<Rightarrow> string" where
  "json_escape_char c =
     (let n = (of_char c :: nat) in
      if n = 34 then [CHR 0x5C, CHR 0x22]
      else if n = 92 then [CHR 0x5C, CHR 0x5C]
      else if n = 8 then [CHR 0x5C, CHR ''b'']
      else if n = 12 then [CHR 0x5C, CHR ''f'']
      else if n = 10 then [CHR 0x5C, CHR ''n'']
      else if n = 13 then [CHR 0x5C, CHR ''r'']
      else if n = 9 then [CHR 0x5C, CHR ''t'']
      else if n < 32 then
        [CHR 0x5C, CHR ''u'', CHR ''0'', CHR ''0'', hex_digit (n div 16), hex_digit (n mod 16)]
      else [c])"

definition json_string :: "string \<Rightarrow> string" where
  "json_string s = CHR 0x22 # concat (map json_escape_char s) @ [CHR 0x22]"

fun json_members :: "json_object \<Rightarrow> string" where
  "json_members [] = []"
| "json_members [(k, v)] = json_string k @ '':'' @ json_string v"
| "json_members ((k, v) # kvs) = json_string k @ '':'' @ json_string v @ '','' @ json_members kvs"

definition JSON_stringify :: "json_object \<Rightarrow> string" where
  "JSON_stringify obj = ''{'' @ json_members obj @ ''}''"

text \<open>\<^verbatim>\<open>new TextEncoder().encode(s)\<close>: UTF-8, one or two bytes for these code points.\<close>

definition utf8_char :: "char \<Rightarrow> byte list" where
  "utf8_char c =
     (let n = (of_char c :: nat) in
      if n < 128 then [of_nat n] else [of_nat (192 + n div 64), of_nat (128 + n mod 64)])"

definition TextEncoder_encode :: "string \<Rightarrow> byte list" where
  "TextEncoder_encode s = concat (map utf8_char s)"

section \<open>The session hook \<^verbatim>\<open>useLiveKit\<close>\<close>

text \<open>
  Field names of \<^verbatim>\<open>LiveKitMessage\<close> carry the prefix \<open>msg_\<close> and those of its
  \<^verbatim>\<open>data\<close> object the prefix \<open>data_\<close>, since the hook and the interface have state
  of the same names. An absent optional field is \<open>None\<close>.
\<close>

record message_data =
  data_isPartial :: "bool option"
  data_isSpeaking :: "bool option"

record LiveKitMessage =
  msg_type :: string
  msg_stage :: "string option"
  msg_transcript :: "string option"
  msg_error :: "string option"
  msg_status :: "string option"
  msg_data :: "message_data option"

text \<open>Room objects, participants and tracks of the media client are handles.\<close>

type_synonym room = nat
type_synonym participant = nat

datatype track_kind = Audio | Video

record track =
  track_id :: nat
  kind :: track_kind

text \<open>
  What the hook does to the outside world, in the order it does it: console output (by its
  label), the calls on a room object, and the playback of a subscribed track.
\<close>

datatype effect =
    ConsoleLog string
  | ConsoleWarn string
  | ConsoleError string
  | NewRoom room
  | RoomConnect room string string
  | SetMicrophoneEnabled room bool
  | RoomDisconnect room
  | PublishData room "byte list" bool
  | AttachAndPlay track

record props =
  userName :: string
  serverUrl :: string
  token :: "string option"
  roomName :: string

record hook_state =
  room :: "room option"
  isConnected :: bool
  isConnecting :: bool
  participants :: "participant list"
  audioTracks :: "track list"
  messages :: "LiveKitMessage list"
  error :: "string option"
  roomRef :: "room option"
  effects :: "effect list"

definition initial_hook :: hook_state where
  "initial_hook =
     \<lparr>room = None, isConnected = False, isConnecting = False, participants = [],
      audioTracks = [], messages = [], error = None, roomRef = None, effects = []\<rparr>"

definition perform :: "effect \<Rightarrow> hook_state \<Rightarrow> hook_state" where
  "perform e st = st\<lparr>effects := effects st @ [e]\<rparr>"

definition addMessage :: "LiveKitMessage \<Rightarrow> hook_state \<Rightarrow> hook_state" where
  "addMessage message st =
     (perform (ConsoleLog ''LiveKit Message:'') st)\<lparr>messages := messages st @ [message]\<rparr>"

definition connection_status :: "string \<Rightarrow> LiveKitMessage" where
  "connection_status s =
     \<lparr>msg_type = ''connection_status'', msg_stage = None, msg_transcript = None,
      msg_error = None, msg_status = Some s, msg_data = None\<rparr>"

text \<open>
  \<^verbatim>\<open>sendData\<close>. The argument \<open>publish\<close> is what \<^verbatim>\<open>publishData\<close> does when it is
  called: \<open>None\<close> when it resolves, \<open>Some err\<close> when it rejects with \<open>err\<close>. The call
  is one made through the closure of the latest render, so the flag \<^verbatim>\<open>isConnected\<close> it
  reads is that of the state.
\<close>

definition sendData :: "thrown option \<Rightarrow> json_object \<Rightarrow> hook_state \<Rightarrow> completion \<times> hook_state" where
  "sendData publish message st =
     (if roomRef st = None \<or> \<not> isConnected st then
        (Returned, perform (ConsoleWarn ''Cannot send data: Room not connected'') st)
      else
        (let data = TextEncoder_encode (JSON_stringify message);
             st1 = perform (PublishData (the (roomRef st)) data True) st
         in case publish of
              None \<Rightarrow> (Returned, perform (ConsoleLog ''Data sent:'') st1)
            | Some err \<Rightarrow>
                (Returned,
                 (perform (ConsoleError ''Error sending data:'') st1)
                   \<lparr>error := Some (''Failed to send data: '' @ message_of err)\<rparr>)))"

subsection \<open>Room events and their listeners\<close>

datatype room_event =
    Connected
  | Disconnected
  | DataReceived "byte list"
  | TrackSubscribed track
  | TrackUnsubscribed track
  | ParticipantConnected participant
  | ParticipantDisconnected participant

text \<open>
  The listener of \<^verbatim>\<open>RoomEvent.DataReceived\<close>. \<open>JSON_parse\<close> stands for
  \<^verbatim>\<open>JSON.parse(new TextDecoder().decode(payload))\<close>: \<open>Inl err\<close> when it throws,
  \<open>Inr message\<close> when it returns.
\<close>

definition onDataReceived ::
  "(byte list \<Rightarrow> thrown + LiveKitMessage) \<Rightarrow> byte list \<Rightarrow> hook_state \<Rightarrow> completion \<times> hook_state" where
  "onDataReceived JSON_parse payload st =
     (case JSON_parse payload of
        Inr message \<Rightarrow> (Returned, addMessage message st)
      | Inl err \<Rightarrow> (Returned, perform (ConsoleError ''Error parsing received data:'') st))"

fun listener :: "(byte list \<Rightarrow> thrown + LiveKitMessage) \<Rightarrow> room_event \<Rightarrow> hook_state \<Rightarrow> hook_state" where
  "listener JSON_parse Connected st =
     addMessage (connection_status ''connected'')
       ((perform (ConsoleLog ''Connected to room'') st)\<lparr>isConnected := True\<rparr>)"
| "listener JSON_parse Disconnected st =
     addMessage (connection_status ''disconnected'')
       ((perform (ConsoleLog ''Disconnected from room:'') st)\<lparr>isConnected := False\<rparr>)"
| "listener JSON_parse (DataReceived payload) st = snd (onDataReceived JSON_parse payload st)"
| "listener JSON_parse (TrackSubscribed t) st =
     (let st1 = perform (ConsoleLog ''Track subscribed:'') st in
      if kind t = Audio then
        perform (AttachAndPlay t) (st1\<lparr>audioTracks := audioTracks st1 @ [t]\<rparr>)
      else st1)"
| "listener JSON_parse (TrackUnsubscribed t) st =
     (if kind t = Audio then st\<lparr>audioTracks := filter (\<lambda>t'. t' \<noteq> t) (audioTracks st)\<rparr>
      else st)"
| "listener JSON_parse (ParticipantConnected p) st =
     (let st1 = perform (ConsoleLog ''Participant connected:'') st in
      st1\<lparr>participants := participants st1 @ [p]\<rparr>)"
| "listener JSON_parse (ParticipantDisconnected p) st =
     (let st1 = perform (ConsoleLog ''Participant disconnected:'') st in
      st1\<lparr>participants := filter (\<lambda>p'. p' \<noteq> p) (participants st1)\<rparr>)"

text \<open>The room emits events one after the other; each runs the listener registered for it.\<close>

definition emit :: "(byte list \<Rightarrow> thrown + LiveKitMessage) \<Rightarrow> room_event list \<Rightarrow> hook_state \<Rightarrow> hook_state" where
  "emit JSON_parse evs st = foldl (\<lambda>s ev. listener JSON_parse ev s) st evs"

subsection \<open>\<^verbatim>\<open>connect\<close> and \<^verbatim>\<open>disconnect\<close>\<close>

definition generateToken :: "string \<Rightarrow> string \<Rightarrow> string" where
  "generateToken user rm = ''placeholder-token-for-'' @ user @ ''-in-'' @ rm"

text \<open>
  What the outside does with one connection attempt: the constructor \<^verbatim>\<open>new Room(...)\<close>
  throws; or \<^verbatim>\<open>room.connect\<close> rejects, or never settles; or it resolves and
  \<^verbatim>\<open>setMicrophoneEnabled\<close> rejects, or never settles; or both resolve. The event lists
  are the events the room emits while the call awaits the one and the other.
\<close>

datatype attempt =
    ConstructorThrows thrown
  | ConnectRejects "room_event list" thrown
  | ConnectStalls "room_event list"
  | MicrophoneRejects "room_event list" "room_event list" thrown
  | MicrophoneStalls "room_event list" "room_event list"
  | Established "room_event list" "room_event list"

text \<open>\<^verbatim>\<open>token || await generateToken(userName, roomName)\<close>, with the warning the stub logs.\<close>

definition connection_token :: "props \<Rightarrow> hook_state \<Rightarrow> string \<times> hook_state" where
  "connection_token p st =
     (if truthy (token p) then (the (token p), st)
      else (generateToken (userName p) (roomName p),
            perform (ConsoleWarn
              ''Using placeholder token - implement proper token generation in production'') st))"

text \<open>
  The \<^verbatim>\<open>try\<close> block up to the call of \<^verbatim>\<open>room.connect\<close>: the room is created (its
  listeners are those of \<open>listener\<close>), the token is obtained, and the connection is asked for.
\<close>

definition room_connect_called :: "props \<Rightarrow> room \<Rightarrow> hook_state \<Rightarrow> hook_state" where
  "room_connect_called p newRoom st =
     (let st2 = perform (NewRoom newRoom) st;
          (connectionToken, st3) = connection_token p st2
      in perform (RoomConnect newRoom (serverUrl p) connectionToken) st3)"

text \<open>
  How the \<^verbatim>\<open>try\<close> block ends: it runs to its end, or something is thrown in it, or it
  stays suspended at an \<^verbatim>\<open>await\<close> that never settles.
\<close>

datatype try_end = Completed | Caught thrown | Suspended

text \<open>
  The \<^verbatim>\<open>try\<close> block of \<^verbatim>\<open>connect\<close>: how it ends, and the state at that point.
  \<open>newRoom\<close> is the handle of the room object that \<^verbatim>\<open>new Room(...)\<close> creates.
\<close>

fun connect_try ::
  "props \<Rightarrow> (byte list \<Rightarrow> thrown + LiveKitMessage) \<Rightarrow> room \<Rightarrow> attempt \<Rightarrow> hook_state
     \<Rightarrow> try_end \<times> hook_state" where
  "connect_try p JSON_parse newRoom (ConstructorThrows err) st = (Caught err, st)"
| "connect_try p JSON_parse newRoom (ConnectRejects evs err) st =
     (Caught err, emit JSON_parse evs (room_connect_called p newRoom st))"
| "connect_try p JSON_parse newRoom (ConnectStalls evs) st =
     (Suspended, emit JSON_parse evs (room_connect_called p newRoom st))"
| "connect_try p JSON_parse newRoom (MicrophoneRejects evs1 evs2 err) st =
     (Caught err,
      emit JSON_parse evs2
        (perform (SetMicrophoneEnabled newRoom True)
          (emit JSON_parse evs1 (room_connect_called p newRoom st))))"
| "connect_try p JSON_parse newRoom (MicrophoneStalls evs1 evs2) st =
     (Suspended,
      emit JSON_parse evs2
        (perform (SetMicrophoneEnabled newRoom True)
          (emit JSON_parse evs1 (room_connect_called p newRoom st))))"
| "connect_try p JSON_parse newRoom (Established evs1 evs2) st =
     (Completed,
      (emit JSON_parse evs2
        (perform (SetMicrophoneEnabled newRoom True)
          (emit JSON_parse evs1 (room_connect_called p newRoom st))))
        \<lparr>room := Some newRoom, roomRef := Some newRoom\<rparr>)"

text \<open>The \<^verbatim>\<open>catch\<close> block of \<^verbatim>\<open>connect\<close>.\<close>

definition connect_catch :: "thrown \<Rightarrow> hook_state \<Rightarrow> hook_state" where
  "connect_catch err st =
     (perform (ConsoleError ''Error connecting to room:'') st)
       \<lparr>error := Some (''Connection failed: '' @ message_of err), isConnected := False\<rparr>"

text \<open>
  \<^verbatim>\<open>connect\<close>: the guard, the two state updates, then \<^verbatim>\<open>try\<close>, \<^verbatim>\<open>catch\<close> and
  \<^verbatim>\<open>finally\<close>. The call never rejects: whatever is thrown inside \<^verbatim>\<open>try\<close> is caught.
  A call that stays suspended never reaches \<^verbatim>\<open>finally\<close>; the result is then the state
  it leaves behind.

  \<^verbatim>\<open>connect\<close> is a \<^verbatim>\<open>useCallback\<close> closure: the guard reads \<^verbatim>\<open>isConnecting\<close> and
  \<^verbatim>\<open>isConnected\<close> as constants of the render that created the closure, not the hook's
  state at the time of the call. \<open>rendered\<close> is the hook's state as that render saw it;
  \<open>st\<close> is the state at the call, which the updates act on. A call made through the
  closure of the latest render has \<open>rendered = st\<close>.
\<close>

definition connect ::
  "props \<Rightarrow> hook_state \<Rightarrow> (byte list \<Rightarrow> thrown + LiveKitMessage) \<Rightarrow> room \<Rightarrow> attempt \<Rightarrow> hook_state
     \<Rightarrow> hook_state" where
  "connect p rendered JSON_parse newRoom att st =
     (if isConnecting rendered \<or> isConnected rendered then st
      else
        (let st1 = st\<lparr>isConnecting := True, error := None\<rparr>;
             (ended, st2) = connect_try p JSON_parse newRoom att st1
         in case ended of
              Completed \<Rightarrow> st2\<lparr>isConnecting := False\<rparr>
            | Caught err \<Rightarrow> (connect_catch err st2)\<lparr>isConnecting := False\<rparr>
            | Suspended \<Rightarrow> st2))"

definition disconnect :: "hook_state \<Rightarrow> hook_state" where
  "disconnect st =
     (case roomRef st of
        None \<Rightarrow> st
      | Some r \<Rightarrow>
          addMessage (connection_status ''disconnected'')
            ((perform (RoomDisconnect r) st)
               \<lparr>roomRef := None, room := None, isConnected := False,
                participants := [], audioTracks := []\<rparr>))"

text \<open>
  The effect on \<^verbatim>\<open>[room]\<close>: when \<^verbatim>\<open>room\<close> has changed and is not null, the participant
  list becomes the room's local participant followed by its remote participants, which are
  arguments here.
\<close>

definition roomEffect :: "participant \<Rightarrow> participant list \<Rightarrow> hook_state \<Rightarrow> hook_state" where
  "roomEffect localParticipant remoteParticipants st =
     (case room st of
        None \<Rightarrow> st
      | Some r \<Rightarrow> st\<lparr>participants := localParticipant # remoteParticipants\<rparr>)"

section \<open>The interface component \<^verbatim>\<open>AgentInterface\<close>\<close>

datatype speaker = User | Agent | System

text \<open>
  A transcript entry; the fields of \<^verbatim>\<open>TranscriptMessage\<close> carry the prefix \<open>t_\<close>.
  The timestamp is the clock reading in milliseconds.
\<close>

record TranscriptMessage =
  t_id :: string
  t_text :: string
  t_speaker :: speaker
  t_timestamp :: nat
  t_isPartial :: "bool option"

text \<open>
  A call of \<^verbatim>\<open>toast\<close>: title, description and the variant when one is given. The
  state of the component also keeps the notifications shown, the delays of the timers set
  and the labels of its console output.
\<close>

datatype notification = Toast string string "string option"

record agent_state =
  currentStage :: string
  transcript :: "TranscriptMessage list"
  isAgentSpeaking :: bool
  isPaymentProcessing :: bool
  toasts :: "notification list"
  timeouts :: "nat list"
  console :: "string list"
  livekit :: hook_state

definition STAGES :: "string list" where
  "STAGES = [''GREETING'', ''PAYMENT_SELECTION'', ''NBFC_PROCESS'', ''RCA_DOCS'']"

definition initial_agent :: agent_state where
  "initial_agent =
     \<lparr>currentStage = ''GREETING'', transcript = [], isAgentSpeaking = False,
      isPaymentProcessing = False, toasts = [], timeouts = [], console = [],
      livekit = initial_hook\<rparr>"

definition toast :: "notification \<Rightarrow> agent_state \<Rightarrow> agent_state" where
  "toast n st = st\<lparr>toasts := toasts st @ [n]\<rparr>"

text \<open>
  The entry that the \<^verbatim>\<open>transcript_update\<close> case builds; \<open>now\<close> is what
  \<^verbatim>\<open>Date.now()\<close> reads during the call. \<open>partial_flag\<close> is
  \<^verbatim>\<open>message.data?.isPartial\<close> and \<open>speaking_flag\<close> is \<^verbatim>\<open>message.data?.isSpeaking\<close>.
\<close>

definition partial_flag :: "LiveKitMessage \<Rightarrow> bool" where
  "partial_flag message =
     flag (case msg_data message of None \<Rightarrow> None | Some d \<Rightarrow> data_isPartial d)"

definition speaking_flag :: "LiveKitMessage \<Rightarrow> bool" where
  "speaking_flag message =
     flag (case msg_data message of None \<Rightarrow> None | Some d \<Rightarrow> data_isSpeaking d)"

definition transcriptMessage :: "nat \<Rightarrow> LiveKitMessage \<Rightarrow> TranscriptMessage" where
  "transcriptMessage now message =
     \<lparr>t_id = ''transcript-'' @ digits now,
      t_text = the (msg_transcript message),
      t_speaker = Agent, t_timestamp = now, t_isPartial = Some (partial_flag message)\<rparr>"

text \<open>\<^verbatim>\<open>handleLiveKitMessage\<close>, one case of the \<^verbatim>\<open>switch\<close> after the other.\<close>

definition handleLiveKitMessage :: "nat \<Rightarrow> LiveKitMessage \<Rightarrow> agent_state \<Rightarrow> agent_state" where
  "handleLiveKitMessage now message st0 =
     (let st = st0\<lparr>console := console st0 @ [''Processing message:'']\<rparr> in
      if msg_type message = ''state_update'' then
        (if truthy (msg_stage message) then
           (let stage = the (msg_stage message);
                systemMessage =
                  \<lparr>t_id = ''system-'' @ digits now,
                   t_text = ''Stage updated: '' @ toLowerCase (replace_first CHR ''_'' CHR '' '' stage),
                   t_speaker = System, t_timestamp = now, t_isPartial = None\<rparr>
            in st\<lparr>currentStage := stage, transcript := transcript st @ [systemMessage]\<rparr>)
         else st)
      else if msg_type message = ''transcript_update'' then
        (if truthy (msg_transcript message) then
           (let prev = transcript st
            in st\<lparr>transcript :=
                    (if partial_flag message \<and> length prev > 0 \<and> flag (t_isPartial (last prev))
                     then butlast prev @ [transcriptMessage now message]
                     else prev @ [transcriptMessage now message]),
                  isAgentSpeaking := speaking_flag message\<rparr>)
         else st)
      else if msg_type message = ''connection_status'' then
        (if msg_status message = Some ''connected'' then
           toast (Toast ''Connected'' ''Voice agent is ready to assist you'' None) st
         else if msg_status message = Some ''disconnected'' then
           toast (Toast ''Disconnected'' ''Connection to voice agent lost'' (Some ''destructive'')) st
         else st)
      else if msg_type message = ''error'' then
        (if truthy (msg_error message) then
           toast (Toast ''Error'' (the (msg_error message)) (Some ''destructive'')) st
         else st)
      else st)"

text \<open>
  The effect \<^verbatim>\<open>useEffect(() => messages.forEach(handleLiveKitMessage), [messages])\<close>:
  it runs over the whole array \<^verbatim>\<open>messages\<close>, in order, each time the array changes.
\<close>

definition messagesEffect :: "nat \<Rightarrow> agent_state \<Rightarrow> agent_state" where
  "messagesEffect now st =
     foldl (\<lambda>s message. handleLiveKitMessage now message s) st (messages (livekit st))"

text \<open>
  A run of messages handled one after the other, each once, with the clock reading of
  each call.
\<close>

definition handle_each :: "(nat \<times> LiveKitMessage) list \<Rightarrow> agent_state \<Rightarrow> agent_state" where
  "handle_each run st = foldl (\<lambda>s (now, message). handleLiveKitMessage now message s) st run"

text \<open>
  One room event reaching the component: the hook's listener runs, and the effect above
  runs when the listener has replaced the array \<^verbatim>\<open>messages\<close>.
\<close>

definition deliver ::
  "(byte list \<Rightarrow> thrown + LiveKitMessage) \<Rightarrow> nat \<Rightarrow> room_event \<Rightarrow> agent_state \<Rightarrow> agent_state" where
  "deliver JSON_parse now ev st =
     (let st1 = st\<lparr>livekit := listener JSON_parse ev (livekit st)\<rparr> in
      if messages (livekit st1) \<noteq> messages (livekit st) then messagesEffect now st1 else st1)"

text \<open>
  \<^verbatim>\<open>handlePaymentSelect\<close>. The timer of the \<^verbatim>\<open>finally\<close> block is recorded by its
  delay; \<open>paymentTimeout\<close> is its callback.
\<close>

definition handlePaymentSelect :: "nat \<Rightarrow> thrown option \<Rightarrow> string \<Rightarrow> agent_state \<Rightarrow> agent_state" where
  "handlePaymentSelect now publish selection st =
     (let st1 = st\<lparr>isPaymentProcessing := True\<rparr>;
          (sent, lk) = sendData publish [(''type'', ''payment_choice''), (''selection'', selection)]
                         (livekit st1);
          st2 = st1\<lparr>livekit := lk\<rparr>;
          st3 =
            (case sent of
               Returned \<Rightarrow>
                 (let userMessage =
                        \<lparr>t_id = ''user-'' @ digits now,
                         t_text = ''Selected payment method: '' @ replace_first CHR ''_'' CHR '' '' selection,
                         t_speaker = User, t_timestamp = now, t_isPartial = None\<rparr>
                  in toast (Toast ''Payment Selection Sent''
                              (''Selected: '' @ replace_first CHR ''_'' CHR '' '' selection) None)
                       (st2\<lparr>transcript := transcript st2 @ [userMessage]\<rparr>))
             | Threw err \<Rightarrow>
                 toast (Toast ''Error'' ''Failed to send payment selection'' (Some ''destructive'')) st2)
      in st3\<lparr>timeouts := timeouts st3 @ [1500]\<rparr>)"

definition paymentTimeout :: "agent_state \<Rightarrow> agent_state" where
  "paymentTimeout st = st\<lparr>isPaymentProcessing := False\<rparr>"

subsection \<open>Stage navigation\<close>

text \<open>\<^verbatim>\<open>Array.prototype.indexOf\<close>: the first index of the element, or \<open>-1\<close>.\<close>

fun indexOf :: "'a list \<Rightarrow> 'a \<Rightarrow> int" where
  "indexOf [] x = -1"
| "indexOf (y # ys) x =
     (if y = x then 0 else (let i = indexOf ys x in if i < 0 then -1 else i + 1))"

text \<open>
  \<^verbatim>\<open>goToNextStage\<close> and \<^verbatim>\<open>goToPreviousStage\<close>. The guard keeps the index that is read
  inside \<^verbatim>\<open>STAGES\<close>, since \<open>indexOf\<close> is at least \<open>-1\<close> and below the length. The
  promise of \<^verbatim>\<open>sendData\<close> is not awaited.
\<close>

definition goToNextStage :: "nat \<Rightarrow> thrown option \<Rightarrow> agent_state \<Rightarrow> agent_state" where
  "goToNextStage now publish st =
     (let currentIndex = indexOf STAGES (currentStage st) in
      if currentIndex < int (length STAGES) - 1 then
        (let nextStage = STAGES ! nat (currentIndex + 1);
             systemMessage =
               \<lparr>t_id = ''system-'' @ digits now,
                t_text = ''Moved to: '' @ toLowerCase (replace_first CHR ''_'' CHR '' '' nextStage),
                t_speaker = System, t_timestamp = now, t_isPartial = None\<rparr>;
             st1 = st\<lparr>currentStage := nextStage, transcript := transcript st @ [systemMessage]\<rparr>;
             st2 = st1\<lparr>livekit :=
                     snd (sendData publish [(''type'', ''manual_stage_change''), (''stage'', nextStage)]
                            (livekit st1))\<rparr>
         in toast (Toast ''Next Stage''
                     (''Moved to '' @ replace_first CHR ''_'' CHR '' '' nextStage) None) st2)
      else st)"

definition goToPreviousStage :: "nat \<Rightarrow> thrown option \<Rightarrow> agent_state \<Rightarrow> agent_state" where
  "goToPreviousStage now publish st =
     (let currentIndex = indexOf STAGES (currentStage st) in
      if currentIndex > 0 then
        (let previousStage = STAGES ! nat (currentIndex - 1);
             systemMessage =
               \<lparr>t_id = ''system-'' @ digits now,
                t_text = ''Moved back to: '' @ toLowerCase (replace_first CHR ''_'' CHR '' '' previousStage),
                t_speaker = System, t_timestamp = now, t_isPartial = None\<rparr>;
             st1 = st\<lparr>currentStage := previousStage, transcript := transcript st @ [systemMessage]\<rparr>;
             st2 = st1\<lparr>livekit :=
                     snd (sendData publish [(''type'', ''manual_stage_change''), (''stage'', previousStage)]
                            (livekit st1))\<rparr>
         in toast (Toast ''Previous Stage''
                     (''Moved to '' @ replace_first CHR ''_'' CHR '' '' previousStage) None) st2)
      else st)"

text \<open>
  A navigation call with what surrounds it: the clock reading and what \<^verbatim>\<open>publishData\<close>
  does. A sequence of calls runs them one after the other, each on the state the one before
  has left.
\<close>

datatype navigation = Next nat "thrown option" | Previous nat "thrown option"

fun navigate :: "navigation \<Rightarrow> agent_state \<Rightarrow> agent_state" where
  "navigate (Next now publish) st = goToNextStage now publish st"
| "navigate (Previous now publish) st = goToPreviousStage now publish st"

definition navigate_all :: "navigation list \<Rightarrow> agent_state \<Rightarrow> agent_state" where
  "navigate_all calls st = foldl (\<lambda>s c. navigate c s) st calls"

subsection \<open>Connecting on mount\<close>

text \<open>
  The effect \<^verbatim>\<open>useEffect(() => { if (!isConnected && !isConnecting) connect(); }, ...)\<close>,
  which runs after a render in which one of the two flags or \<^verbatim>\<open>connect\<close> has changed.
  The flags it reads and the closure it calls are those of that render.
\<close>

definition autoConnect ::
  "props \<Rightarrow> (byte list \<Rightarrow> thrown + LiveKitMessage) \<Rightarrow> room \<Rightarrow> attempt \<Rightarrow> agent_state \<Rightarrow> agent_state" where
  "autoConnect p JSON_parse newRoom att st =
     (if \<not> isConnected (livekit st) \<and> \<not> isConnecting (livekit st)
      then st\<lparr>livekit := connect p (livekit st) JSON_parse newRoom att (livekit st)\<rparr>
      else st)"

section \<open>Notions used in the statements\<close>

text \<open>The connection attempts and the publish attempts among the effects of the hook.\<close>

fun is_RoomConnect :: "effect \<Rightarrow> bool" where
  "is_RoomConnect (RoomConnect r url tok) = True"
| "is_RoomConnect e = False"

definition connection_attempts :: "hook_state \<Rightarrow> nat" where
  "connection_attempts st = length (filter is_RoomConnect (effects st))"

fun is_PublishData :: "effect \<Rightarrow> bool" where
  "is_PublishData (PublishData r d b) = True"
| "is_PublishData e = False"

definition publications :: "hook_state \<Rightarrow> effect list" where
  "publications st = filter is_PublishData (effects st)"

text \<open>The error of a connection attempt that fails.\<close>

fun rejection :: "attempt \<Rightarrow> thrown option" where
  "rejection (ConstructorThrows err) = Some err"
| "rejection (ConnectRejects evs err) = Some err"
| "rejection (MicrophoneRejects evs1 evs2 err) = Some err"
| "rejection att = None"

text \<open>Concrete inputs: the props the interface passes, and a decoder that always throws.\<close>

definition demo_props :: props where
  "demo_props =
     \<lparr>userName = ''asha'', serverUrl = ''wss://your-livekit-server.com'',
      token = None, roomName = ''ai-agent-room''\<rparr>"

definition reject_all :: "byte list \<Rightarrow> thrown + LiveKitMessage" where
  "reject_all payload = Inl (ErrorObject ''Unexpected token'')"

text \<open>
  States the hook reaches from its initial state through the closure of the first render:
  after a connection attempt that succeeds (and the effect on \<^verbatim>\<open>[room]\<close>), after one
  where the room connects and the microphone is refused, and while one stays suspended at
  \<^verbatim>\<open>room.connect\<close>.
\<close>

definition connected_hook :: hook_state where
  "connected_hook =
     roomEffect 0 [7]
       (connect demo_props initial_hook reject_all 1
          (Established [Connected, ParticipantConnected 7]
             [TrackSubscribed \<lparr>track_id = 3, kind = Audio\<rparr>])
          initial_hook)"

definition mic_denied_hook :: hook_state where
  "mic_denied_hook =
     connect demo_props initial_hook reject_all 1
       (MicrophoneRejects [Connected, ParticipantConnected 7] [] (ErrorObject ''Permission denied''))
       initial_hook"

definition connecting_hook :: hook_state where
  "connecting_hook = connect demo_props initial_hook reject_all 1 (ConnectStalls []) initial_hook"

text \<open>
  A second call of \<^verbatim>\<open>connect\<close> through that same closure, made while the first call is
  suspended, and made after the first call has returned with the room connected.
\<close>

definition second_call_while_connecting :: hook_state where
  "second_call_while_connecting =
     connect demo_props initial_hook reject_all 2 (Established [Connected] []) connecting_hook"

definition second_call_when_connected :: hook_state where
  "second_call_when_connected =
     connect demo_props initial_hook reject_all 2 (Established [Connected] []) connected_hook"

text \<open>The rooms the hook has created, in order.\<close>

fun created_room :: "effect \<Rightarrow> room list" where
  "created_room (NewRoom r) = [r]"
| "created_room e = []"

definition rooms_created :: "hook_state \<Rightarrow> room list" where
  "rooms_created st = concat (map created_room (effects st))"

text \<open>
  Inbound transcript updates with a text: partial ones and final ones. A trailing partial
  entry is the one the next partial update replaces.
\<close>

definition is_partial_update :: "LiveKitMessage \<Rightarrow> bool" where
  "is_partial_update message =
     (msg_type message = ''transcript_update'' \<and> truthy (msg_transcript message) \<and>
      partial_flag message)"

definition is_final_update :: "LiveKitMessage \<Rightarrow> bool" where
  "is_final_update message =
     (msg_type message = ''transcript_update'' \<and> truthy (msg_transcript message) \<and>
      \<not> partial_flag message)"

definition without_trailing_partial :: "TranscriptMessage list \<Rightarrow> TranscriptMessage list" where
  "without_trailing_partial prev =
     (if length prev > 0 \<and> flag (t_isPartial (last prev)) then butlast prev else prev)"

text \<open>Concrete messages, a decoder for three payloads, and the states they lead to.\<close>

definition transcript_update :: "string \<Rightarrow> bool \<Rightarrow> LiveKitMessage" where
  "transcript_update txt partial =
     \<lparr>msg_type = ''transcript_update'', msg_stage = None, msg_transcript = Some txt,
      msg_error = None, msg_status = None,
      msg_data = Some \<lparr>data_isPartial = Some partial, data_isSpeaking = Some True\<rparr>\<rparr>"

definition state_update :: "string \<Rightarrow> LiveKitMessage" where
  "state_update s =
     \<lparr>msg_type = ''state_update'', msg_stage = Some s, msg_transcript = None,
      msg_error = None, msg_status = None, msg_data = None\<rparr>"

definition demo_decode :: "byte list \<Rightarrow> thrown + LiveKitMessage" where
  "demo_decode payload =
     (if payload = [1] then Inr (state_update ''GREETING'')
      else if payload = [2] then Inr (state_update ''PAYMENT_SELECTION'')
      else if payload = [3] then Inr (transcript_update ''Hello'' False)
      else Inl (ErrorObject ''Unexpected token''))"

definition after_greeting :: agent_state where
  "after_greeting = deliver demo_decode 10 (DataReceived [1]) initial_agent"

definition after_greeting_then_payment :: agent_state where
  "after_greeting_then_payment = deliver demo_decode 20 (DataReceived [2]) after_greeting"

definition after_payment :: agent_state where
  "after_payment = deliver demo_decode 10 (DataReceived [2]) initial_agent"

definition after_payment_then_hello :: agent_state where
  "after_payment_then_hello = deliver demo_decode 20 (DataReceived [3]) after_payment"

section \<open>Connection attempts are made by \<^verbatim>\<open>connect\<close> alone\<close>

lemma connection_attempts_update:
  "connection_attempts (st\<lparr>isConnecting := b\<rparr>) = connection_attempts st"
  "connection_attempts (st\<lparr>isConnected := b\<rparr>) = connection_attempts st"
  "connection_attempts (st\<lparr>error := e\<rparr>) = connection_attempts st"
  by (simp_all add: connection_attempts_def)

lemma perform_connection_attempts:
  "connection_attempts (perform e st) = connection_attempts st + (if is_RoomConnect e then 1 else 0)"
  by (simp add: connection_attempts_def perform_def)

lemma listener_connection_attempts:
  "connection_attempts (listener JSON_parse ev st) = connection_attempts st"
  by (cases ev)
     (simp_all add: connection_attempts_def addMessage_def perform_def onDataReceived_def Let_def
        split: sum.splits)

lemma emit_connection_attempts:
  "connection_attempts (emit JSON_parse evs st) = connection_attempts st"
  unfolding emit_def
  by (induction evs arbitrary: st) (simp_all add: listener_connection_attempts)

lemma connection_token_attempts:
  "connection_attempts (snd (connection_token p st)) = connection_attempts st"
  by (simp add: connection_token_def connection_attempts_def perform_def)

lemma connect_catch_fields:
  "error (connect_catch err st) = Some (''Connection failed: '' @ message_of err)"
  "isConnected (connect_catch err st) = False"
  "connection_attempts (connect_catch err st) = connection_attempts st"
  by (simp_all add: connect_catch_def connection_attempts_def perform_def)

lemma connected_hook_fields:
  "roomRef connected_hook = Some 1"
  "isConnected connected_hook"
  "\<not> isConnecting connected_hook"
  "participants connected_hook = [0, 7]"
  "audioTracks connected_hook = [\<lparr>track_id = 3, kind = Audio\<rparr>]"
  "messages connected_hook = [connection_status ''connected'']"
  "error connected_hook = None"
  by (simp_all add: connected_hook_def roomEffect_def connect_def room_connect_called_def connection_token_def demo_props_def
      initial_hook_def emit_def addMessage_def perform_def generateToken_def)

lemma connected_hook_effects:
  "effects connected_hook =
     [NewRoom 1,
      ConsoleWarn ''Using placeholder token - implement proper token generation in production'',
      RoomConnect 1 ''wss://your-livekit-server.com'' ''placeholder-token-for-asha-in-ai-agent-room'',
      ConsoleLog ''Connected to room'', ConsoleLog ''LiveKit Message:'',
      ConsoleLog ''Participant connected:'',
      SetMicrophoneEnabled 1 True,
      ConsoleLog ''Track subscribed:'', AttachAndPlay \<lparr>track_id = 3, kind = Audio\<rparr>]"
  by (simp add: connected_hook_def roomEffect_def connect_def room_connect_called_def connection_token_def demo_props_def
      initial_hook_def emit_def addMessage_def perform_def generateToken_def)

lemma room_connect_called_attempts:
  "connection_attempts (room_connect_called p newRoom st) = connection_attempts st + 1"
proof -
  obtain tok st3 where tk: "connection_token p (perform (NewRoom newRoom) st) = (tok, st3)"
    by (cases "connection_token p (perform (NewRoom newRoom) st)")
  have "connection_attempts st3 = connection_attempts st"
    using connection_token_attempts [of p "perform (NewRoom newRoom) st"] tk
    by (simp add: perform_connection_attempts)
  with tk show ?thesis
    by (simp add: room_connect_called_def perform_connection_attempts)
qed

lemma connect_try_rejected:
  assumes "rejection att = Some err"
  shows "fst (connect_try p JSON_parse newRoom att st) = Caught err"
    and "connection_attempts (snd (connect_try p JSON_parse newRoom att st))
           = connection_attempts st + (case att of ConstructorThrows e \<Rightarrow> 0 | _ \<Rightarrow> 1)"
  using assms
  by (cases att;
      simp add: emit_connection_attempts perform_connection_attempts room_connect_called_attempts)+

text \<open>A call of \<^verbatim>\<open>connect\<close> that passes the guard and fails.\<close>

lemma connect_rejected:
  assumes "\<not> isConnecting rendered" and "\<not> isConnected rendered" and "rejection att = Some err"
  shows "error (connect p rendered JSON_parse newRoom att st)
           = Some (''Connection failed: '' @ message_of err) \<and>
         error (connect p rendered JSON_parse newRoom att st) \<noteq> None \<and>
         \<not> isConnected (connect p rendered JSON_parse newRoom att st) \<and>
         \<not> isConnecting (connect p rendered JSON_parse newRoom att st) \<and>
         connection_attempts (connect p rendered JSON_parse newRoom att st)
           \<le> connection_attempts st + 1"
proof -
  let ?st1 = "st\<lparr>isConnecting := True, error := None\<rparr>"
  obtain ended st2 where t: "connect_try p JSON_parse newRoom att ?st1 = (ended, st2)"
    by (cases "connect_try p JSON_parse newRoom att ?st1")
  from connect_try_rejected [OF assms(3), of p JSON_parse newRoom ?st1] t
  have c: "ended = Caught err"
    and a: "connection_attempts st2 = connection_attempts st + (case att of ConstructorThrows e \<Rightarrow> 0 | _ \<Rightarrow> 1)"
    by (simp_all add: connection_attempts_update)
  from a have "connection_attempts st2 \<le> connection_attempts st + 1"
    by (cases att) simp_all
  with assms(1,2) t c show ?thesis
    by (simp add: connect_def connect_catch_fields connection_attempts_update)
qed

text \<open>Through a closure whose render saw one of the two flags set, the call changes nothing.\<close>

lemma connect_guard_rendered:
  "isConnecting rendered \<or> isConnected rendered \<Longrightarrow>
   connect p rendered JSON_parse newRoom att st = st"
  by (simp add: connect_def)

lemma connecting_hook_fields:
  "isConnecting connecting_hook"
  "\<not> isConnected connecting_hook"
  "roomRef connecting_hook = None"
  "rooms_created connecting_hook = [1]"
  "connection_attempts connecting_hook = 1"
  by (simp_all add: connecting_hook_def connect_def room_connect_called_def connection_token_def
      demo_props_def initial_hook_def emit_def perform_def generateToken_def rooms_created_def
      connection_attempts_def)

section \<open>Facts about \<open>indexOf\<close> and the stage of a navigation call\<close>

lemma indexOf_bounds: "- 1 \<le> indexOf xs x \<and> indexOf xs x < int (length xs)"
  by (induction xs) (simp_all add: Let_def)

lemma indexOf_member: "0 \<le> indexOf xs x \<longleftrightarrow> x \<in> set xs"
  by (induction xs) (auto simp: Let_def)

lemma indexOf_absent: "x \<notin> set xs \<Longrightarrow> indexOf xs x = - 1"
  by (induction xs) (auto simp: Let_def)

lemma currentStage_goToNextStage:
  "currentStage (goToNextStage now publish st) =
     (if indexOf STAGES (currentStage st) < int (length STAGES) - 1
      then STAGES ! nat (indexOf STAGES (currentStage st) + 1) else currentStage st)"
  by (simp add: goToNextStage_def Let_def toast_def)

lemma currentStage_goToPreviousStage:
  "currentStage (goToPreviousStage now publish st) =
     (if indexOf STAGES (currentStage st) > 0
      then STAGES ! nat (indexOf STAGES (currentStage st) - 1) else currentStage st)"
  by (simp add: goToPreviousStage_def Let_def toast_def)

lemma navigate_in_STAGES:
  assumes "currentStage st \<in> set STAGES"
  shows "currentStage (navigate c st) \<in> set STAGES"
proof -
  have b: "- 1 \<le> indexOf STAGES (currentStage st)"
    "indexOf STAGES (currentStage st) < int (length STAGES)"
    using indexOf_bounds [of STAGES "currentStage st"] by simp_all
  show ?thesis
  proof (cases c)
    case (Next now publish)
    show ?thesis
    proof (cases "indexOf STAGES (currentStage st) < int (length STAGES) - 1")
      case True
      with b have "nat (indexOf STAGES (currentStage st) + 1) < length STAGES" by linarith
      then show ?thesis using Next True by (simp add: currentStage_goToNextStage)
    next
      case False
      then show ?thesis using Next assms by (simp add: currentStage_goToNextStage)
    qed
  next
    case (Previous now publish)
    show ?thesis
    proof (cases "indexOf STAGES (currentStage st) > 0")
      case True
      with b have "nat (indexOf STAGES (currentStage st) - 1) < length STAGES" by linarith
      then show ?thesis using Previous True by (simp add: currentStage_goToPreviousStage)
    next
      case False
      then show ?thesis using Previous assms by (simp add: currentStage_goToPreviousStage)
    qed
  qed
qed

lemma navigate_all_in_STAGES:
  "currentStage st \<in> set STAGES \<Longrightarrow> currentStage (navigate_all calls st) \<in> set STAGES"
  unfolding navigate_all_def
  by (induction calls arbitrary: st) (simp_all add: navigate_in_STAGES)

section \<open>Facts about rendered texts and transcript updates\<close>

lemma lower_greeting: "toLowerCase ''GREETING'' = ''greeting''"
  by code_simp

lemma lower_payment_selection: "toLowerCase ''PAYMENT SELECTION'' = ''payment selection''"
  by code_simp

lemma nbfc_loan_json:
  \<open>JSON_stringify [(''type'', ''payment_choice''), (''selection'', ''nbfc_loan'')] =
     ''{"type":"payment_choice","selection":"nbfc_loan"}''\<close>
  by (simp add: JSON_stringify_def json_string_def json_escape_char_def)

lemma nbfc_loan_bytes:
  \<open>TextEncoder_encode ''{"type":"payment_choice","selection":"nbfc_loan"}'' =
     [123, 34, 116, 121, 112, 101, 34, 58, 34, 112, 97, 121, 109, 101, 110, 116, 95,
      99, 104, 111, 105, 99, 101, 34, 44, 34, 115, 101, 108, 101, 99, 116, 105, 111,
      110, 34, 58, 34, 110, 98, 102, 99, 95, 108, 111, 97, 110, 34, 125]\<close>
  by (simp add: TextEncoder_encode_def utf8_char_def)

lemma handle_partial_update:
  "is_partial_update message \<Longrightarrow>
   transcript (handleLiveKitMessage now message st) =
     without_trailing_partial (transcript st) @ [transcriptMessage now message]"
  by (simp add: is_partial_update_def handleLiveKitMessage_def without_trailing_partial_def Let_def)

lemma handle_final_update:
  "is_final_update message \<Longrightarrow>
   transcript (handleLiveKitMessage now message st) = transcript st @ [transcriptMessage now message]"
  by (simp add: is_final_update_def handleLiveKitMessage_def Let_def)

lemma without_trailing_partial_snoc:
  "is_partial_update message \<Longrightarrow>
   without_trailing_partial (prev @ [transcriptMessage now message]) = prev"
  by (simp add: without_trailing_partial_def transcriptMessage_def is_partial_update_def)

lemma handle_each_Cons:
  "handle_each ((now, message) # run) st = handle_each run (handleLiveKitMessage now message st)"
  by (simp add: handle_each_def)

text \<open>A run of partial updates leaves one entry, that of the last of them.\<close>

lemma partial_run_coalesces:
  "ps \<noteq> [] \<Longrightarrow> list_all (\<lambda>(now, message). is_partial_update message) ps \<Longrightarrow>
   transcript (handle_each ps st) =
     without_trailing_partial (transcript st) @ [transcriptMessage (fst (last ps)) (snd (last ps))]"
proof (induction ps arbitrary: st)
  case Nil
  then show ?case by simp
next
  case (Cons p ps)
  obtain now message where p: "p = (now, message)" by (cases p)
  from Cons.prems p have pm: "is_partial_update message" by simp
  show ?case
  proof (cases "ps = []")
    case True
    with p pm show ?thesis
      by (simp add: handle_each_def handle_partial_update)
  next
    case False
    from Cons.prems have "list_all (\<lambda>(now, message). is_partial_update message) ps" by simp
    with False Cons.IH [of "handleLiveKitMessage now message st"]
    have "transcript (handle_each ps (handleLiveKitMessage now message st)) =
            without_trailing_partial (transcript (handleLiveKitMessage now message st)) @
              [transcriptMessage (fst (last ps)) (snd (last ps))]"
      by simp
    with False p pm show ?thesis
      by (simp add: handle_each_Cons handle_partial_update without_trailing_partial_snoc)
  qed
qed

section \<open>The session connector\<close>

text \<open>
  C4, as amended. When the hook holds a room (\<^verbatim>\<open>roomRef.current\<close> is not null),
  \<^verbatim>\<open>disconnect()\<close> calls \<^verbatim>\<open>disconnect\<close> on that room, sets \<^verbatim>\<open>isConnected\<close> to false,
  empties the participant list and the audio-track list, and appends the message
  \<^verbatim>\<open>{type: 'connection_status', status: 'disconnected'}\<close>. When the hook holds no room,
  \<^verbatim>\<open>disconnect()\<close> changes nothing.
\<close>

theorem disconnect_with_room:
  "(roomRef st = Some r \<longrightarrow>
      \<not> isConnected (disconnect st) \<and> roomRef (disconnect st) = None \<and>
      participants (disconnect st) = [] \<and> audioTracks (disconnect st) = [] \<and>
      messages (disconnect st) = messages st @ [connection_status ''disconnected''] \<and>
      effects (disconnect st) = effects st @ [RoomDisconnect r, ConsoleLog ''LiveKit Message:'']) \<and>
   (roomRef st = None \<longrightarrow> disconnect st = st)"
  by (simp add: disconnect_def addMessage_def perform_def)

theorem disconnect_with_room_witness:
  "roomRef connected_hook = Some 1 \<and>
   \<not> isConnected (disconnect connected_hook) \<and>
   participants connected_hook = [0, 7] \<and> participants (disconnect connected_hook) = [] \<and>
   audioTracks (disconnect connected_hook) = [] \<and>
   messages (disconnect connected_hook) =
     [connection_status ''connected'', connection_status ''disconnected''] \<and>
   roomRef initial_hook = None \<and> disconnect initial_hook = initial_hook"
  using disconnect_with_room [of connected_hook 1] disconnect_with_room [of initial_hook 0]
  by (simp add: connected_hook_fields) (simp add: initial_hook_def)

text \<open>
  C4 as stated fails where the hook holds no room. In the initial state \<^verbatim>\<open>disconnect()\<close>
  appends no message; after an attempt where the microphone is refused, the participant
  that joined meanwhile stays in the list.
\<close>

theorem disconnect_claim_counterexample:
  "messages (disconnect initial_hook) = [] \<and>
   messages (disconnect initial_hook) \<noteq> messages initial_hook @ [connection_status ''disconnected''] \<and>
   participants mic_denied_hook = [7] \<and>
   participants (disconnect mic_denied_hook) = [7] \<and>
   messages (disconnect mic_denied_hook) = messages mic_denied_hook"
  by (simp add: disconnect_def mic_denied_hook_def connect_def room_connect_called_def connection_token_def demo_props_def
      initial_hook_def emit_def addMessage_def perform_def generateToken_def connect_catch_def)

text \<open>
  C5. \<^verbatim>\<open>sendData\<close> called while the hook holds no room or is not connected returns
  normally; all it does is log the warning: nothing is published and no error is set.
\<close>

theorem sendData_not_connected:
  "roomRef st = None \<or> \<not> isConnected st \<Longrightarrow>
   sendData publish message st =
     (Returned, st\<lparr>effects := effects st @ [ConsoleWarn ''Cannot send data: Room not connected'']\<rparr>)"
  by (simp add: sendData_def perform_def)

theorem sendData_not_connected_witness:
  "roomRef initial_hook = None \<and>
   sendData None [(''type'', ''payment_choice''), (''selection'', ''nbfc_loan'')] initial_hook =
     (Returned, initial_hook\<lparr>effects := [ConsoleWarn ''Cannot send data: Room not connected'']\<rparr>)"
  using sendData_not_connected
    [of initial_hook None "[(''type'', ''payment_choice''), (''selection'', ''nbfc_loan'')]"]
  by (simp add: initial_hook_def)

text \<open>
  C6. A call of \<^verbatim>\<open>connect()\<close> that passes its guard and whose attempt fails, at the
  constructor, at \<^verbatim>\<open>room.connect\<close> or at \<^verbatim>\<open>setMicrophoneEnabled\<close>, whatever events the
  room emits meanwhile, ends with the error string set to the message of the failure, with
  \<^verbatim>\<open>isConnected\<close> and \<^verbatim>\<open>isConnecting\<close> false, and having asked for a connection at
  most once.
\<close>

theorem connect_failure:
  assumes "\<not> isConnecting rendered" and "\<not> isConnected rendered" and "rejection att = Some err"
  shows "error (connect p rendered JSON_parse newRoom att st)
           = Some (''Connection failed: '' @ message_of err) \<and>
         error (connect p rendered JSON_parse newRoom att st) \<noteq> None \<and>
         \<not> isConnected (connect p rendered JSON_parse newRoom att st) \<and>
         \<not> isConnecting (connect p rendered JSON_parse newRoom att st) \<and>
         connection_attempts (connect p rendered JSON_parse newRoom att st)
           \<le> connection_attempts st + 1"
  using assms by (rule connect_rejected)

theorem connect_failure_witness:
  "\<not> isConnecting initial_hook \<and> \<not> isConnected initial_hook \<and>
   rejection (MicrophoneRejects [Connected] [] (ErrorObject ''Permission denied''))
     = Some (ErrorObject ''Permission denied'') \<and>
   error (connect demo_props initial_hook reject_all 1
            (MicrophoneRejects [Connected] [] (ErrorObject ''Permission denied'')) initial_hook)
     = Some ''Connection failed: Permission denied'' \<and>
   \<not> isConnected (connect demo_props initial_hook reject_all 1
            (MicrophoneRejects [Connected] [] (ErrorObject ''Permission denied'')) initial_hook) \<and>
   \<not> isConnecting (connect demo_props initial_hook reject_all 1
            (MicrophoneRejects [Connected] [] (ErrorObject ''Permission denied'')) initial_hook) \<and>
   connection_attempts (connect demo_props initial_hook reject_all 1
            (MicrophoneRejects [Connected] [] (ErrorObject ''Permission denied'')) initial_hook) \<le> 1"
  using connect_failure
    [of initial_hook "MicrophoneRejects [Connected] [] (ErrorObject ''Permission denied'')"
        "ErrorObject ''Permission denied''" demo_props reject_all 1 initial_hook]
  by (simp add: initial_hook_def connection_attempts_def)

text \<open>
  The retry that does happen is the caller's: after a failed attempt both flags are false,
  so the interface's effect, when it runs after the next render, calls \<^verbatim>\<open>connect()\<close>
  again, past the guard.
\<close>

lemma autoConnect_after_failure:
  assumes "\<not> isConnecting rendered" and "\<not> isConnected rendered"
    and "rejection att = Some err"
  shows "autoConnect p JSON_parse newRoom' att'
           (st\<lparr>livekit := connect p rendered JSON_parse newRoom att (livekit st)\<rparr>) =
         st\<lparr>livekit :=
              connect p (connect p rendered JSON_parse newRoom att (livekit st))
                JSON_parse newRoom' att'
                (connect p rendered JSON_parse newRoom att (livekit st))\<rparr>"
    and "\<not> (isConnecting (connect p rendered JSON_parse newRoom att (livekit st)) \<or>
            isConnected (connect p rendered JSON_parse newRoom att (livekit st)))"
  using connect_rejected [OF assms, of p JSON_parse newRoom "livekit st"]
  by (simp_all add: autoConnect_def)

text \<open>
  C7, at two inputs where the code departs from it. The guard of \<^verbatim>\<open>connect\<close> reads the
  flags of the render that created the closure. Called a second time through the closure of
  the first render, while the first call is suspended at \<^verbatim>\<open>room.connect\<close> (the hook is
  connecting) or after it has returned (the hook is connected), \<^verbatim>\<open>connect()\<close> passes
  the guard: it creates a second room, asks for a second connection and replaces the room
  the hook holds. Called through the closure of a render that saw the flag, it changes
  nothing.
\<close>

theorem second_call_same_closure:
  "isConnecting connecting_hook \<and>
   rooms_created connecting_hook = [1] \<and>
   rooms_created second_call_while_connecting = [1, 2] \<and>
   connection_attempts second_call_while_connecting = 2 \<and>
   roomRef second_call_while_connecting = Some 2 \<and>
   isConnected connected_hook \<and> roomRef connected_hook = Some 1 \<and>
   rooms_created connected_hook = [1] \<and>
   rooms_created second_call_when_connected = [1, 2] \<and>
   connection_attempts second_call_when_connected = 2 \<and>
   roomRef second_call_when_connected = Some 2 \<and>
   connect demo_props connecting_hook reject_all 2 (Established [Connected] []) connecting_hook
     = connecting_hook \<and>
   connect demo_props connected_hook reject_all 2 (Established [Connected] []) connected_hook
     = connected_hook"
proof -
  have a: "rooms_created second_call_while_connecting = [1, 2]"
    "connection_attempts second_call_while_connecting = 2"
    "roomRef second_call_while_connecting = Some 2"
    by (simp_all add: second_call_while_connecting_def connecting_hook_def connect_def
        room_connect_called_def connection_token_def demo_props_def initial_hook_def emit_def
        addMessage_def perform_def generateToken_def rooms_created_def connection_attempts_def)
  have b: "rooms_created connected_hook = [1]"
    "rooms_created second_call_when_connected = [1, 2]"
    "connection_attempts second_call_when_connected = 2"
    "roomRef second_call_when_connected = Some 2"
    by (simp_all add: second_call_when_connected_def connected_hook_def roomEffect_def connect_def
        room_connect_called_def connection_token_def demo_props_def initial_hook_def emit_def
        addMessage_def perform_def generateToken_def rooms_created_def connection_attempts_def)
  have c: "connect demo_props connecting_hook reject_all 2 (Established [Connected] []) connecting_hook
             = connecting_hook"
    "connect demo_props connected_hook reject_all 2 (Established [Connected] []) connected_hook
             = connected_hook"
    by (simp_all add: connect_guard_rendered connecting_hook_fields connected_hook_fields)
  from a b c show ?thesis
    by (simp add: connecting_hook_fields connected_hook_fields)
qed

section \<open>The inbound message router\<close>

text \<open>
  C8. A payload that \<^verbatim>\<open>JSON.parse\<close> rejects is logged and dropped: the listener returns
  normally, and neither the hook's state (messages, connection flags, error) nor the
  interface's (transcript, stage) changes; the log entry is all there is.
\<close>

theorem malformed_payload_dropped:
  "JSON_parse payload = Inl err \<Longrightarrow>
   onDataReceived JSON_parse payload st =
     (Returned, st\<lparr>effects := effects st @ [ConsoleError ''Error parsing received data:'']\<rparr>) \<and>
   deliver JSON_parse now (DataReceived payload) ag =
     ag\<lparr>livekit := (livekit ag)
          \<lparr>effects := effects (livekit ag) @ [ConsoleError ''Error parsing received data:'']\<rparr>\<rparr>"
  by (simp add: onDataReceived_def deliver_def perform_def)

theorem malformed_payload_dropped_witness:
  "reject_all [0x7B] = Inl (ErrorObject ''Unexpected token'') \<and>
   onDataReceived reject_all [0x7B] connected_hook =
     (Returned,
      connected_hook
        \<lparr>effects := effects connected_hook @ [ConsoleError ''Error parsing received data:'']\<rparr>) \<and>
   deliver reject_all 5 (DataReceived [0x7B]) (initial_agent\<lparr>livekit := connected_hook\<rparr>) =
     initial_agent\<lparr>livekit := connected_hook
          \<lparr>effects := effects connected_hook @ [ConsoleError ''Error parsing received data:'']\<rparr>\<rparr>"
  using malformed_payload_dropped
    [of reject_all "[0x7B]" "ErrorObject ''Unexpected token''" connected_hook 5
        "initial_agent\<lparr>livekit := connected_hook\<rparr>"]
  by (simp add: reject_all_def)

text \<open>
  C1, as amended. A run of \<^verbatim>\<open>transcript_update\<close> messages with non-empty texts, all
  partial but the last, each handled once and in order, leaves the transcript ending with
  the entry of the final message, whose text is the last message's text. When the run has
  a partial message, the entry before it is the entry of the last partial message, still
  marked partial (it has replaced a trailing partial entry that was there before the run):
  the run leaves two entries. It leaves one entry when it is the final message alone.
\<close>

theorem partial_run_then_final:
  assumes "list_all (\<lambda>(now, message). is_partial_update message) ps" and "is_final_update final"
  shows "transcript (handle_each (ps @ [(now, final)]) st) =
           (if ps = [] then transcript st
            else without_trailing_partial (transcript st) @
                   [transcriptMessage (fst (last ps)) (snd (last ps))])
           @ [transcriptMessage now final] \<and>
         t_text (last (transcript (handle_each (ps @ [(now, final)]) st))) = the (msg_transcript final) \<and>
         t_isPartial (last (transcript (handle_each (ps @ [(now, final)]) st))) = Some False"
proof -
  have f: "transcript (handle_each (ps @ [(now, final)]) st) =
             transcript (handle_each ps st) @ [transcriptMessage now final]"
    using assms(2) by (simp add: handle_each_def handle_final_update)
  have t: "t_text (transcriptMessage now final) = the (msg_transcript final)"
          "t_isPartial (transcriptMessage now final) = Some False"
    using assms(2) by (simp_all add: transcriptMessage_def is_final_update_def)
  show ?thesis
  proof (cases "ps = []")
    case True
    with f t show ?thesis by (simp add: handle_each_def)
  next
    case False
    with f t partial_run_coalesces [OF False assms(1), of st] show ?thesis by simp
  qed
qed

theorem partial_run_then_final_witness:
  "list_all (\<lambda>(now, message). is_partial_update message)
     [(1, transcript_update ''Hel'' True), (2, transcript_update ''Hello wor'' True)] \<and>
   is_final_update (transcript_update ''Hello world'' False) \<and>
   map t_text (transcript (handle_each
       [(1, transcript_update ''Hel'' True), (2, transcript_update ''Hello wor'' True),
        (3, transcript_update ''Hello world'' False)] initial_agent)) =
     [''Hello wor'', ''Hello world''] \<and>
   map t_isPartial (transcript (handle_each
       [(1, transcript_update ''Hel'' True), (2, transcript_update ''Hello wor'' True),
        (3, transcript_update ''Hello world'' False)] initial_agent)) =
     [Some True, Some False]"
  using partial_run_then_final
    [of "[(1, transcript_update ''Hel'' True), (2, transcript_update ''Hello wor'' True)]"
        "transcript_update ''Hello world'' False" 3 initial_agent]
  by (simp add: is_partial_update_def is_final_update_def transcript_update_def partial_flag_def
      transcriptMessage_def without_trailing_partial_def initial_agent_def)

text \<open>
  C1 as stated fails on a run of one partial and one final message handled from the empty
  transcript: the final message is appended after the partial entry, so the run leaves two
  entries, not one.
\<close>

theorem one_entry_per_run_counterexample:
  "is_partial_update (transcript_update ''Hel'' True) \<and>
   is_final_update (transcript_update ''Hello'' False) \<and>
   transcript initial_agent = [] \<and>
   length (transcript (handle_each
       [(1, transcript_update ''Hel'' True), (2, transcript_update ''Hello'' False)] initial_agent)) = 2 \<and>
   map t_text (transcript (handle_each
       [(1, transcript_update ''Hel'' True), (2, transcript_update ''Hello'' False)] initial_agent)) =
     [''Hel'', ''Hello'']"
  by (simp add: is_partial_update_def is_final_update_def transcript_update_def partial_flag_def
      transcriptMessage_def handle_each_def handleLiveKitMessage_def initial_agent_def)

text \<open>
  C2, at two inputs where the code departs from it. With the stage at \<^verbatim>\<open>GREETING\<close> and
  one earlier \<^verbatim>\<open>state_update\<close> in \<^verbatim>\<open>messages\<close>, the arrival of a \<^verbatim>\<open>state_update\<close>
  for \<^verbatim>\<open>PAYMENT_SELECTION\<close> makes the effect handle both messages: the transcript gains
  two system entries. And a \<^verbatim>\<open>state_update\<close> for \<^verbatim>\<open>PAYMENT_SELECTION\<close> that arrived
  first is handled once more when the next message arrives.
\<close>

theorem replayed_messages:
  "currentStage after_greeting = ''GREETING'' \<and>
   map t_text (transcript after_greeting) = [''Stage updated: greeting''] \<and>
   messages (livekit after_greeting_then_payment) =
     [state_update ''GREETING'', state_update ''PAYMENT_SELECTION''] \<and>
   map t_text (transcript after_greeting_then_payment) =
     [''Stage updated: greeting'', ''Stage updated: greeting'', ''Stage updated: payment selection''] \<and>
   map t_text (transcript after_payment) = [''Stage updated: payment selection''] \<and>
   map t_text (transcript after_payment_then_hello) =
     [''Stage updated: payment selection'', ''Stage updated: payment selection'', ''Hello'']"
  by (simp add: after_greeting_then_payment_def after_greeting_def after_payment_def
      after_payment_then_hello_def deliver_def onDataReceived_def demo_decode_def
      addMessage_def perform_def initial_agent_def initial_hook_def messagesEffect_def
      handleLiveKitMessage_def state_update_def transcript_update_def transcriptMessage_def
      partial_flag_def speaking_flag_def Let_def lower_greeting lower_payment_selection)

text \<open>
  C10, as amended. An inbound \<^verbatim>\<open>state_update\<close> whose stage is a non-empty string sets the
  current stage to that string, whether or not it is one of the four stages; when it is
  none of them, the next \<^verbatim>\<open>goToNextStage\<close> moves to \<^verbatim>\<open>GREETING\<close>. An inbound
  \<^verbatim>\<open>state_update\<close> whose stage is the empty string is ignored: the handler logs the
  message and changes nothing else, neither the stage nor the transcript.
\<close>

theorem state_update_sets_stage:
  assumes "msg_type message = ''state_update''" and "msg_stage message = Some s"
  shows "(s \<noteq> [] \<longrightarrow>
            currentStage (handleLiveKitMessage now message st) = s \<and>
            (s \<notin> set STAGES \<longrightarrow>
               currentStage (goToNextStage now' publish (handleLiveKitMessage now message st))
                 = ''GREETING'')) \<and>
         (s = [] \<longrightarrow>
            handleLiveKitMessage now message st =
              st\<lparr>console := console st @ [''Processing message:'']\<rparr>)"
proof -
  have c: "s \<noteq> [] \<longrightarrow> currentStage (handleLiveKitMessage now message st) = s"
    using assms by (simp add: handleLiveKitMessage_def Let_def)
  have n: "s \<noteq> [] \<longrightarrow> s \<notin> set STAGES \<longrightarrow>
          currentStage (goToNextStage now' publish (handleLiveKitMessage now message st)) = ''GREETING''"
    using c by (simp add: currentStage_goToNextStage indexOf_absent) (simp add: STAGES_def)
  have e: "s = [] \<longrightarrow>
            handleLiveKitMessage now message st =
              st\<lparr>console := console st @ [''Processing message:'']\<rparr>"
    using assms by (simp add: handleLiveKitMessage_def Let_def)
  from c n e show ?thesis by simp
qed

theorem state_update_sets_stage_witness:
  "msg_type (state_update ''LOAN_APPROVED'') = ''state_update'' \<and>
   msg_stage (state_update ''LOAN_APPROVED'') = Some ''LOAN_APPROVED'' \<and>
   ''LOAN_APPROVED'' \<noteq> [] \<and> ''LOAN_APPROVED'' \<notin> set STAGES \<and>
   currentStage (handleLiveKitMessage 1 (state_update ''LOAN_APPROVED'') initial_agent) = ''LOAN_APPROVED'' \<and>
   currentStage (goToNextStage 2 None
      (handleLiveKitMessage 1 (state_update ''LOAN_APPROVED'') initial_agent)) = ''GREETING'' \<and>
   msg_type (state_update []) = ''state_update'' \<and>
   msg_stage (state_update []) = Some [] \<and>
   handleLiveKitMessage 3 (state_update []) after_greeting =
     after_greeting\<lparr>console := console after_greeting @ [''Processing message:'']\<rparr>"
  using state_update_sets_stage
      [of "state_update ''LOAN_APPROVED''" "''LOAN_APPROVED''" 1 initial_agent 2 None]
    state_update_sets_stage [of "state_update []" "[]" 3 after_greeting 2 None]
  by (simp add: state_update_def STAGES_def)

text \<open>
  C10 as stated fails for a \<^verbatim>\<open>state_update\<close> that carries the empty string as its stage:
  the handler tests \<^verbatim>\<open>if (message.stage)\<close>, and the stage stays what it was.
\<close>

theorem empty_stage_counterexample:
  "msg_type (state_update '''') = ''state_update'' \<and>
   msg_stage (state_update '''') = Some '''' \<and>
   currentStage initial_agent = ''GREETING'' \<and>
   currentStage (handleLiveKitMessage 1 (state_update '''') initial_agent) = ''GREETING'' \<and>
   currentStage (handleLiveKitMessage 1 (state_update '''') initial_agent) \<noteq> '''' \<and>
   handleLiveKitMessage 1 (state_update '''') initial_agent =
     initial_agent\<lparr>console := [''Processing message:'']\<rparr>"
  by (simp add: state_update_def handleLiveKitMessage_def initial_agent_def)

section \<open>The outbound command sender and stage navigation\<close>

text \<open>
  C9. While the hook holds a room and is connected, selecting \<^verbatim>\<open>nbfc_loan\<close> makes one
  publish call, reliable, with the 49 bytes of
  \<^verbatim>\<open>{"type":"payment_choice","selection":"nbfc_loan"}\<close>, and appends one transcript entry
  of the user with the text \<^verbatim>\<open>Selected payment method: nbfc loan\<close>, whether the publish
  call resolves or rejects.
\<close>

theorem payment_select_publishes:
  assumes "roomRef (livekit st) = Some r" and "isConnected (livekit st)"
  shows "publications (livekit (handlePaymentSelect now publish ''nbfc_loan'' st)) =
           publications (livekit st) @
             [PublishData r
                [123, 34, 116, 121, 112, 101, 34, 58, 34, 112, 97, 121, 109, 101, 110, 116, 95,
                 99, 104, 111, 105, 99, 101, 34, 44, 34, 115, 101, 108, 101, 99, 116, 105, 111,
                 110, 34, 58, 34, 110, 98, 102, 99, 95, 108, 111, 97, 110, 34, 125]
                True] \<and>
         transcript (handlePaymentSelect now publish ''nbfc_loan'' st) =
           transcript st @
             [\<lparr>t_id = ''user-'' @ digits now, t_text = ''Selected payment method: nbfc loan'',
               t_speaker = User, t_timestamp = now, t_isPartial = None\<rparr>]"
proof (cases publish)
  case None
  with assms show ?thesis
    by (simp add: handlePaymentSelect_def sendData_def nbfc_loan_json nbfc_loan_bytes perform_def
        toast_def publications_def)
next
  case (Some err)
  with assms show ?thesis
    by (simp add: handlePaymentSelect_def sendData_def nbfc_loan_json nbfc_loan_bytes perform_def
        toast_def publications_def)
qed

theorem payment_select_publishes_witness:
  "roomRef connected_hook = Some 1 \<and> isConnected connected_hook \<and>
   publications (livekit (handlePaymentSelect 9 None ''nbfc_loan''
       (initial_agent\<lparr>livekit := connected_hook\<rparr>))) =
     [PublishData 1
        [123, 34, 116, 121, 112, 101, 34, 58, 34, 112, 97, 121, 109, 101, 110, 116, 95,
         99, 104, 111, 105, 99, 101, 34, 44, 34, 115, 101, 108, 101, 99, 116, 105, 111,
         110, 34, 58, 34, 110, 98, 102, 99, 95, 108, 111, 97, 110, 34, 125]
        True] \<and>
   map t_text (transcript (handlePaymentSelect 9 None ''nbfc_loan''
       (initial_agent\<lparr>livekit := connected_hook\<rparr>))) =
     [''Selected payment method: nbfc loan''] \<and>
   map t_speaker (transcript (handlePaymentSelect 9 None ''nbfc_loan''
       (initial_agent\<lparr>livekit := connected_hook\<rparr>))) =
     [User]"
  using payment_select_publishes [of "initial_agent\<lparr>livekit := connected_hook\<rparr>" 1 9 None]
  by (simp add: connected_hook_fields connected_hook_effects publications_def)
     (simp add: initial_agent_def)

text \<open>
  C3. After any sequence of \<^verbatim>\<open>goToNextStage\<close> and \<^verbatim>\<open>goToPreviousStage\<close> calls from the
  initial state, the current stage is one of the four stages, at an index from 0 to 3;
  \<^verbatim>\<open>goToPreviousStage\<close> at the first stage and \<^verbatim>\<open>goToNextStage\<close> at the last change
  nothing.
\<close>

theorem stage_navigation_bounded:
  "currentStage (navigate_all calls initial_agent) \<in> set STAGES \<and>
   0 \<le> indexOf STAGES (currentStage (navigate_all calls initial_agent)) \<and>
   indexOf STAGES (currentStage (navigate_all calls initial_agent)) \<le> 3 \<and>
   (currentStage st = hd STAGES \<longrightarrow> goToPreviousStage now publish st = st) \<and>
   (currentStage st = last STAGES \<longrightarrow> goToNextStage now publish st = st)"
proof -
  have m: "currentStage (navigate_all calls initial_agent) \<in> set STAGES"
    by (rule navigate_all_in_STAGES) (simp add: initial_agent_def STAGES_def)
  have i: "indexOf STAGES (currentStage (navigate_all calls initial_agent)) \<le> 3"
    using indexOf_bounds [of STAGES "currentStage (navigate_all calls initial_agent)"]
    by (simp add: STAGES_def)
  have p: "currentStage st = hd STAGES \<longrightarrow> goToPreviousStage now publish st = st"
    by (simp add: goToPreviousStage_def STAGES_def)
  have n: "currentStage st = last STAGES \<longrightarrow> goToNextStage now publish st = st"
    by (simp add: goToNextStage_def STAGES_def)
  from m i p n show ?thesis by (simp add: indexOf_member)
qed

theorem stage_navigation_bounded_witness:
  "currentStage (navigate_all [Next 1 None, Next 2 None, Next 3 None, Next 4 None, Previous 5 None]
      initial_agent) \<in> set STAGES \<and>
   currentStage initial_agent = hd STAGES \<and>
   goToPreviousStage 6 None initial_agent = initial_agent \<and>
   currentStage (initial_agent\<lparr>currentStage := ''RCA_DOCS''\<rparr>) = last STAGES \<and>
   goToNextStage 7 None (initial_agent\<lparr>currentStage := ''RCA_DOCS''\<rparr>) =
     initial_agent\<lparr>currentStage := ''RCA_DOCS''\<rparr>"
  using stage_navigation_bounded
      [of "[Next 1 None, Next 2 None, Next 3 None, Next 4 None, Previous 5 None]" initial_agent 6 None]
    stage_navigation_bounded
      [of "[]" "initial_agent\<lparr>currentStage := ''RCA_DOCS''\<rparr>" 7 None]
  by (simp add: initial_agent_def STAGES_def)

end
